theory Spec2Isabelle
  imports Complex_Main
begin

section \<open>Data model\<close>

text \<open>
  A transaction as the request body carries it (server.js reads the three properties
  \<open>timestamp\<close>, \<open>amount\<close> and \<open>name\<close>). The timestamp is the instant that
  \<open>moment(t.timestamp)\<close> denotes, in milliseconds since the epoch, which is what
  \<open>isAfter\<close> compares. JavaScript numbers are modelled as exact rationals: rounding of
  IEEE doubles is not part of the model.
\<close>

record transaction =
  timestamp :: int
  amount :: rat
  name :: string

text \<open>The object literal \<open>{ name: t.name, amount: 0, count: 0 }\<close> of \<open>getTopPeople\<close>.\<close>

record person =
  name :: string
  amount :: rat
  count :: nat

text \<open>The object literal returned by \<open>analyzeTransactions\<close> (lines 55 to 63).\<close>

record analysis =
  period :: string
  totalSpent :: rat
  totalReceived :: rat
  netAmount :: rat
  transactionCount :: nat
  topSenders :: "person list"
  topReceivers :: "person list"

section \<open>The object \<open>people\<close> of \<open>getTopPeople\<close>\<close>

text \<open>
  \<open>const people = {}\<close> is an ordinary object used as a dictionary. Two properties of
  ordinary objects are visible in what \<open>getTopPeople\<close> returns:

  \<^item> \<open>people[k]\<close> also finds the properties inherited from \<open>Object.prototype\<close>, all of
    which are truthy (functions, and the prototype object itself for \<open>__proto__\<close>);
  \<^item> \<open>Object.values\<close> lists the own properties whose key is an array index (the canonical
    decimal numeral of an integer below \<open>2^32 - 1\<close>) first, in ascending numeric order, and
    the other string keys after them in creation order.

  The own properties are kept as an association list in creation order.
\<close>

type_synonym people = "(string \<times> person) list"

definition objectPrototypeKeys :: "string list" where
  "objectPrototypeKeys =
     [''constructor'', ''__defineGetter__'', ''__defineSetter__'', ''hasOwnProperty'',
      ''__lookupGetter__'', ''__lookupSetter__'', ''isPrototypeOf'',
      ''propertyIsEnumerable'', ''toString'', ''valueOf'', ''__proto__'',
      ''toLocaleString'']"

definition isDigit :: "char \<Rightarrow> bool" where
  "isDigit c = (48 \<le> (of_char c :: nat) \<and> (of_char c :: nat) \<le> 57)"

definition decimalValue :: "string \<Rightarrow> nat" where
  "decimalValue s = foldl (\<lambda>n c. 10 * n + ((of_char c :: nat) - 48)) 0 s"

definition arrayIndex :: "string \<Rightarrow> nat option" where
  "arrayIndex s =
     (if s \<noteq> [] \<and> list_all isDigit s \<and> (hd s \<noteq> CHR ''0'' \<or> s = ''0'')
         \<and> decimalValue s < 4294967295
      then Some (decimalValue s) else None)"

definition isArrayIndex :: "string \<Rightarrow> bool" where
  "isArrayIndex s = (arrayIndex s \<noteq> None)"

definition indexOf :: "string \<Rightarrow> nat" where
  "indexOf s = (case arrayIndex s of Some n \<Rightarrow> n | None \<Rightarrow> 0)"

definition Object_values :: "people \<Rightarrow> person list" where
  "Object_values obj =
     map snd (sort_key (\<lambda>kv. indexOf (fst kv)) (filter (\<lambda>kv. isArrayIndex (fst kv)) obj))
     @ map snd (filter (\<lambda>kv. \<not> isArrayIndex (fst kv)) obj)"

text \<open>\<open>people[k].f = ...\<close> on an own property: the first (and only) entry with key \<open>k\<close>.\<close>

fun updateOwn :: "string \<Rightarrow> (person \<Rightarrow> person) \<Rightarrow> people \<Rightarrow> people" where
  "updateOwn k f [] = []"
| "updateOwn k f (kv # obj) =
     (if fst kv = k then (k, f (snd kv)) # obj else kv # updateOwn k f obj)"

section \<open>\<open>getTopPeople\<close> (lines 66 to 79)\<close>

text \<open>
  The body of the \<open>forEach\<close> callback. For a name that \<open>Object.prototype\<close> defines,
  \<open>!people[t.name]\<close> is false although \<open>people\<close> has no such own property, and the two
  assignments then write to the inherited object: \<open>people\<close> keeps its own properties.
\<close>

definition forEachBody :: "people \<Rightarrow> transaction \<Rightarrow> people" where
  "forEachBody obj t =
     (if transaction.name t \<in> set objectPrototypeKeys then obj
      else
        let obj1 = (if map_of obj (transaction.name t) = None
                    then obj @ [(transaction.name t,
                                 \<lparr>name = transaction.name t, amount = 0, count = 0\<rparr>)]
                    else obj);
            obj2 = updateOwn (transaction.name t)
                     (\<lambda>p. p\<lparr>person.amount := person.amount p + \<bar>transaction.amount t\<bar>\<rparr>) obj1;
            obj3 = updateOwn (transaction.name t)
                     (\<lambda>p. p\<lparr>count := count p + 1\<rparr>) obj2
        in obj3)"

text \<open>
  \<open>Array.prototype.sort\<close> is stable; with the comparator \<open>b.amount - a.amount\<close> it is the
  stable sort by descending amount, which is \<open>sort_key\<close> on the negated amount.
\<close>

definition getTopPeople :: "transaction list \<Rightarrow> person list" where
  "getTopPeople transactions =
     (let people = foldl forEachBody [] transactions
      in take 5 (sort_key (\<lambda>p. - person.amount p) (Object_values people)))"

section \<open>\<open>analyzeTransactions\<close> (lines 19 to 64)\<close>

text \<open>
  \<open>moment\<close> is a library outside the repository, and what \<open>subtract(1, unit)\<close> returns
  depends on the calendar and on the time zone of the process. The analyzer takes both
  the clock reading \<open>now\<close> (\<open>moment()\<close>) and the function \<open>subtract\<close>
  (\<open>m.clone().subtract(n, unit)\<close> on instants) as parameters.
\<close>

datatype time_unit = Day | Week | Month | Year

type_synonym moment_subtract = "nat \<Rightarrow> time_unit \<Rightarrow> int \<Rightarrow> int"

definition startDate :: "moment_subtract \<Rightarrow> int \<Rightarrow> string \<Rightarrow> int" where
  "startDate subtract now period' =
     (if period' = ''day'' then subtract 1 Day now
      else if period' = ''week'' then subtract 1 Week now
      else if period' = ''month'' then subtract 1 Month now
      else if period' = ''year'' then subtract 1 Year now
      else subtract 1 Week now)"

definition filteredTransactions ::
  "moment_subtract \<Rightarrow> int \<Rightarrow> transaction list \<Rightarrow> string \<Rightarrow> transaction list" where
  "filteredTransactions subtract now transactions period' =
     filter (\<lambda>t. timestamp t > startDate subtract now period') transactions"

definition analyzeTransactions ::
  "moment_subtract \<Rightarrow> int \<Rightarrow> transaction list \<Rightarrow> string \<Rightarrow> analysis" where
  "analyzeTransactions subtract now transactions period' =
     (let filtered = filteredTransactions subtract now transactions period';
          totalSpent' = foldl (\<lambda>sum t. sum + \<bar>transaction.amount t\<bar>) 0
                          (filter (\<lambda>t. transaction.amount t < 0) filtered);
          totalReceived' = foldl (\<lambda>sum t. sum + transaction.amount t) 0
                             (filter (\<lambda>t. transaction.amount t > 0) filtered);
          topSenders' = getTopPeople (filter (\<lambda>t. transaction.amount t > 0) filtered);
          topReceivers' = getTopPeople (filter (\<lambda>t. transaction.amount t < 0) filtered)
      in \<lparr>period = period',
          totalSpent = totalSpent',
          totalReceived = totalReceived',
          netAmount = totalReceived' - totalSpent',
          transactionCount = length filtered,
          topSenders = topSenders',
          topReceivers = topReceivers'\<rparr>)"

section \<open>\<open>requiresTransactionData\<close> (lines 81 to 91)\<close>

text \<open>
  A message is a string of code units below 256. \<open>toLowerCase\<close> maps the upper-case
  letters of that range (A to Z, and U+00C0 to U+00DE without the multiplication sign)
  to their lower-case letters and leaves every other code unit as it is.
\<close>

definition transactionKeywords :: "string list" where
  "transactionKeywords =
     [''balance'', ''spend'', ''spent'', ''expense'', ''income'', ''receive'', ''received'',
      ''transaction'', ''money'', ''payment'', ''transfer'', ''budget'', ''financial'',
      ''analysis'', ''summary'', ''total'', ''amount'', ''cost'', ''price'', ''bill'']"

definition toLowerCaseChar :: "char \<Rightarrow> char" where
  "toLowerCaseChar c =
     (let n = (of_char c :: nat)
      in if (65 \<le> n \<and> n \<le> 90) \<or> (192 \<le> n \<and> n \<le> 222 \<and> n \<noteq> 215)
         then char_of (n + 32) else c)"

definition toLowerCase :: "string \<Rightarrow> string" where
  "toLowerCase s = map toLowerCaseChar s"

fun startsWith :: "string \<Rightarrow> string \<Rightarrow> bool" where
  "startsWith s [] = True"
| "startsWith [] (k # ks) = False"
| "startsWith (c # cs) (k # ks) = (c = k \<and> startsWith cs ks)"

fun stringIncludes :: "string \<Rightarrow> string \<Rightarrow> bool" where
  "stringIncludes [] k = (k = [])"
| "stringIncludes (c # cs) k = (startsWith (c # cs) k \<or> stringIncludes cs k)"

definition requiresTransactionData :: "string \<Rightarrow> bool" where
  "requiresTransactionData message =
     list_ex (\<lambda>keyword. stringIncludes (toLowerCase message) keyword) transactionKeywords"

section \<open>\<open>generateChatResponse\<close> (lines 93 to 133)\<close>

text \<open>
  The two template literals are kept as the values that fill their holes: the message,
  and for the grounded prompt the analysis and the transactions printed after it.
\<close>

datatype prompt =
    GroundedPrompt string analysis "transaction list"
  | GeneralPrompt string

datatype js_error = ReferenceError | TypeError | RequestFailed

text \<open>What the promise of \<open>generateChatResponse\<close> resolves to.\<close>

datatype reply = Null | Undefined | Text string

text \<open>
  The request body of \<open>axios.post\<close>. Its only varying part is the value of the
  identifier \<open>prompt\<close>, of some type \<open>'g\<close>.
\<close>

record 'g request =
  contentsText :: 'g
  temperature :: rat
  maxOutputTokens :: nat

text \<open>
  The part of \<open>response.data\<close> that line 128 reads. \<open>None\<close> stands for a property
  that is not there (reading it gives \<open>undefined\<close>).
\<close>

record part =
  partText :: "string option"

record content =
  parts :: "part list option"

record candidate =
  content :: "content option"

record response =
  candidates :: "candidate list option"

text \<open>
  \<open>response.data.candidates[0].content.parts[0].text\<close>: reading a property of
  \<open>undefined\<close> throws a \<open>TypeError\<close>; a first part without \<open>text\<close> gives
  \<open>undefined\<close> and throws nothing.
\<close>

definition responseText :: "response \<Rightarrow> js_error + reply" where
  "responseText r =
     (case candidates r of
        None \<Rightarrow> Inl TypeError
      | Some [] \<Rightarrow> Inl TypeError
      | Some (c # _) \<Rightarrow>
          (case content c of
             None \<Rightarrow> Inl TypeError
           | Some ct \<Rightarrow>
               (case parts ct of
                  None \<Rightarrow> Inl TypeError
                | Some [] \<Rightarrow> Inl TypeError
                | Some (p # _) \<Rightarrow>
                    Inr (case partText p of None \<Rightarrow> Undefined | Some s \<Rightarrow> Text s))))"

text \<open>\<open>xs.slice(-n)\<close>: the last \<open>n\<close> elements, or all of them when there are fewer.\<close>

definition sliceLast :: "nat \<Rightarrow> 'a list \<Rightarrow> 'a list" where
  "sliceLast n xs = drop (length xs - n) xs"

text \<open>The \<open>const prompt\<close> of line 102 and the one of line 113.\<close>

definition groundedPrompt ::
  "moment_subtract \<Rightarrow> int \<Rightarrow> string \<Rightarrow> transaction list \<Rightarrow> prompt" where
  "groundedPrompt subtract now message userTransactions =
     (let analysis = analyzeTransactions subtract now userTransactions ''week''
      in GroundedPrompt message analysis (sliceLast 10 userTransactions))"

definition generalPrompt :: "string \<Rightarrow> prompt" where
  "generalPrompt message = GeneralPrompt message"

text \<open>
  Lines 118 to 128. Both \<open>const prompt\<close> declarations are scoped to the block of their
  branch, so the identifier \<open>prompt\<close> of line 120 does not refer to either: it is looked
  up in the enclosing scopes, where neither the function nor the module declares it, and
  so in the global scope of the host. \<open>globalPrompt\<close> is that binding: \<open>None\<close> when the
  host has none (Node.js), and then evaluating the argument of \<open>axios.post\<close> throws a
  \<open>ReferenceError\<close> before the call. \<open>post\<close> is the awaited \<open>axios.post\<close>: \<open>Inl\<close> when
  the promise rejects. The second component lists the request bodies posted.
\<close>

definition postPrompt ::
  "'g option \<Rightarrow> ('g request \<Rightarrow> js_error + response)
     \<Rightarrow> (js_error + reply) \<times> 'g request list" where
  "postPrompt globalPrompt post =
     (case globalPrompt of
        None \<Rightarrow> (Inl ReferenceError, [])
      | Some prompt \<Rightarrow>
          (let body = \<lparr>contentsText = prompt, temperature = 7 / 10, maxOutputTokens = 500\<rparr>
           in case post body of
                Inl e \<Rightarrow> (Inl e, [body])
              | Inr response \<Rightarrow> (responseText response, [body])))"

text \<open>The body of the \<open>try\<close> block; \<open>userTransactions\<close> is \<open>None\<close> when the argument is absent.\<close>

definition tryBlock ::
  "'g option \<Rightarrow> ('g request \<Rightarrow> js_error + response) \<Rightarrow> moment_subtract \<Rightarrow> int
     \<Rightarrow> string \<Rightarrow> transaction list option \<Rightarrow> (js_error + reply) \<times> 'g request list" where
  "tryBlock globalPrompt post subtract now message userTransactions =
     (if requiresTransactionData message then
        (case userTransactions of
           None \<Rightarrow> (Inr Null, [])
         | Some txs \<Rightarrow>
             if length txs = 0 then (Inr Null, [])
             else (let prompt = groundedPrompt subtract now message txs
                   in postPrompt globalPrompt post))
      else (let prompt = generalPrompt message
            in postPrompt globalPrompt post))"

record 'g chat_outcome =
  returned :: reply
  posted :: "'g request list"

text \<open>The \<open>catch\<close> clause turns every exception of the block into \<open>null\<close>.\<close>

definition generateChatResponse ::
  "'g option \<Rightarrow> ('g request \<Rightarrow> js_error + response) \<Rightarrow> moment_subtract \<Rightarrow> int
     \<Rightarrow> string \<Rightarrow> transaction list option \<Rightarrow> 'g chat_outcome" where
  "generateChatResponse globalPrompt post subtract now message userTransactions =
     (case tryBlock globalPrompt post subtract now message userTransactions of
        (Inl error, reqs) \<Rightarrow> \<lparr>returned = Null, posted = reqs\<rparr>
      | (Inr v, reqs) \<Rightarrow> \<lparr>returned = v, posted = reqs\<rparr>)"

section \<open>Notions of the ranking\<close>




text \<open>
  The own keys of \<open>people\<close> after the \<open>forEach\<close>, in creation order: the names in
  the order of their first occurrence, without the names that \<open>Object.prototype\<close>
  defines. (\<open>remdups\<close> keeps the last occurrence of every element, hence the first one
  on the reversed list.)
\<close>

definition firstOccurrences :: "'a list \<Rightarrow> 'a list" where
  "firstOccurrences xs = rev (remdups (rev xs))"

definition ownKeys :: "transaction list \<Rightarrow> string list" where
  "ownKeys transactions =
     firstOccurrences (filter (\<lambda>k. k \<notin> set objectPrototypeKeys)
                         (map transaction.name transactions))"

text \<open>
  The order in which \<open>Object.values\<close> lists keys created in the order \<open>ks\<close>, and the
  relation it induces on two names of a list of names: an array index comes before a
  name that is none, two array indices come in numeric order, and two other names in
  the order of their first occurrence (\<open>a\<close> occurs before the first \<open>b\<close>).
\<close>

definition enumerationOrder :: "string list \<Rightarrow> string list" where
  "enumerationOrder ks =
     sort_key indexOf (filter isArrayIndex ks) @ filter (\<lambda>k. \<not> isArrayIndex k) ks"



section \<open>Hosts and generators of the instances\<close>

text \<open>
  A generator that answers with a given text, one whose request fails, and a \<open>subtract\<close>
  by fixed durations: a day of 86400000 ms, a week of seven days, a month of thirty days
  and a year of 365 days. In UTC this is what \<open>moment\<close> computes for a day and a week,
  and for a month and a year when the month before \<open>now\<close> has thirty days and the year
  before holds no leap day, as on 1 July 2025 (1751328000000 ms).
\<close>

definition textResponse :: "string \<Rightarrow> response" where
  "textResponse s =
     \<lparr>candidates = Some [\<lparr>content = Some \<lparr>parts = Some [\<lparr>partText = Some s\<rparr>]\<rparr>\<rparr>]\<rparr>"

definition answeringPost :: "string \<Rightarrow> 'g request \<Rightarrow> js_error + response" where
  "answeringPost s body = Inr (textResponse s)"


definition fixedSubtract :: moment_subtract where
  "fixedSubtract n u t =
     t - int n * (case u of Day \<Rightarrow> 86400000 | Week \<Rightarrow> 604800000
                  | Month \<Rightarrow> 2592000000 | Year \<Rightarrow> 31536000000)"


section \<open>Evaluation on concrete inputs\<close>

lemmas rank_eval =
  getTopPeople_def forEachBody_def objectPrototypeKeys_def Object_values_def
  isArrayIndex_def arrayIndex_def isDigit_def decimalValue_def indexOf_def

lemmas analyze_eval =
  analyzeTransactions_def filteredTransactions_def startDate_def fixedSubtract_def Let_def

section \<open>The classifier\<close>

lemmas classifier_eval =
  requiresTransactionData_def transactionKeywords_def toLowerCase_def toLowerCaseChar_def
  char_of_eq_iff

lemma startsWith_iff: "startsWith s k \<longleftrightarrow> (\<exists>post. s = k @ post)"
  by (induction s k rule: startsWith.induct) auto

lemma stringIncludes_iff: "stringIncludes s k \<longleftrightarrow> (\<exists>pre post. s = pre @ k @ post)"
proof (induction s)
  case Nil
  show ?case by auto
next
  case (Cons c cs)
  have "(\<exists>pre post. c # cs = pre @ k @ post) \<longleftrightarrow>
        (\<exists>post. c # cs = k @ post) \<or> (\<exists>pre post. cs = pre @ k @ post)"
  proof
    assume "\<exists>pre post. c # cs = pre @ k @ post"
    then obtain pre post where eq: "c # cs = pre @ k @ post" by blast
    show "(\<exists>post. c # cs = k @ post) \<or> (\<exists>pre post. cs = pre @ k @ post)"
    proof (cases pre)
      case Nil
      with eq show ?thesis by auto
    next
      case (Cons a pre')
      with eq have "cs = pre' @ k @ post" by simp
      then show ?thesis by blast
    qed
  next
    assume "(\<exists>post. c # cs = k @ post) \<or> (\<exists>pre post. cs = pre @ k @ post)"
    then show "\<exists>pre post. c # cs = pre @ k @ post"
    proof
      assume "\<exists>post. c # cs = k @ post"
      then obtain post where "c # cs = [] @ k @ post" by auto
      then show ?thesis by blast
    next
      assume "\<exists>pre post. cs = pre @ k @ post"
      then obtain pre post where "c # cs = (c # pre) @ k @ post" by auto
      then show ?thesis by blast
    qed
  qed
  with Cons show ?case by (simp add: startsWith_iff)
qed

lemma toLowerCaseChar_idem: "toLowerCaseChar (toLowerCaseChar c) = toLowerCaseChar c"
proof -
  have lt: "(of_char c :: nat) < 256" by simp
  show ?thesis
    using lt unfolding toLowerCaseChar_def Let_def
    by (auto simp: mod_if)
qed

lemma toLowerCase_idem: "toLowerCase (toLowerCase s) = toLowerCase s"
  by (simp add: toLowerCase_def toLowerCaseChar_idem)

text \<open>
  C6. \<open>requiresTransactionData\<close> is true exactly when one of the twenty keywords is a
  substring of the lower-cased message. It does not depend on the case of the message
  (a message and its lower-cased form are classified alike), the empty message gives
  false, "What's my BALANCE?" gives true and "Hello, how are you?" gives false.
\<close>

theorem requiresTransactionData_keyword_substring:
  "(requiresTransactionData message \<longleftrightarrow>
      (\<exists>keyword \<in> {''balance'', ''spend'', ''spent'', ''expense'', ''income'', ''receive'',
                     ''received'', ''transaction'', ''money'', ''payment'', ''transfer'',
                     ''budget'', ''financial'', ''analysis'', ''summary'', ''total'',
                     ''amount'', ''cost'', ''price'', ''bill''}.
         \<exists>pre post. toLowerCase message = pre @ keyword @ post))
   \<and> requiresTransactionData message = requiresTransactionData (toLowerCase message)
   \<and> \<not> requiresTransactionData ''''
   \<and> requiresTransactionData ''What's my BALANCE?''
   \<and> \<not> requiresTransactionData ''Hello, how are you?''"
proof -
  have a: "requiresTransactionData message \<longleftrightarrow>
      (\<exists>keyword \<in> {''balance'', ''spend'', ''spent'', ''expense'', ''income'', ''receive'',
                     ''received'', ''transaction'', ''money'', ''payment'', ''transfer'',
                     ''budget'', ''financial'', ''analysis'', ''summary'', ''total'',
                     ''amount'', ''cost'', ''price'', ''bill''}.
         \<exists>pre post. toLowerCase message = pre @ keyword @ post)"
    unfolding requiresTransactionData_def list_ex_iff stringIncludes_iff transactionKeywords_def
    by simp
  have b: "requiresTransactionData message = requiresTransactionData (toLowerCase message)"
    by (simp add: requiresTransactionData_def toLowerCase_idem)
  have c: "\<not> requiresTransactionData ''''"
    by (simp add: classifier_eval)
  have d: "requiresTransactionData ''What's my BALANCE?''"
    by (simp add: classifier_eval)
  have e: "\<not> requiresTransactionData ''Hello, how are you?''"
    by (simp add: classifier_eval)
  from a b c d e show ?thesis by blast
qed

section \<open>The router\<close>

text \<open>
  What is posted is the global binding of \<open>prompt\<close>, whatever the branch taken; with
  such a binding and a generator that answers, a message that needs no grounding gets
  the generator's text.
\<close>

lemma posted_body_global_prompt:
  "body \<in> set (posted (generateChatResponse globalPrompt post subtract now message
                         userTransactions))
   \<Longrightarrow> globalPrompt = Some (contentsText body)"
  unfolding generateChatResponse_def tryBlock_def postPrompt_def Let_def
  by (auto split: option.splits sum.splits if_splits prod.splits)

lemma ungrounded_answer:
  "\<not> requiresTransactionData message \<Longrightarrow>
   generateChatResponse (Some g) (answeringPost s) subtract now message userTransactions
     = \<lparr>returned = Text s,
        posted = [\<lparr>contentsText = g, temperature = 7 / 10, maxOutputTokens = 500\<rparr>]\<rparr>"
  by (simp add: generateChatResponse_def tryBlock_def postPrompt_def answeringPost_def
        textResponse_def responseText_def)

text \<open>
  On a host without a global \<open>prompt\<close> every call returns \<open>null\<close> and posts nothing.
\<close>

lemma no_global_prompt_null:
  "generateChatResponse None post subtract now message userTransactions
     = \<lparr>returned = Null, posted = []\<rparr>"
  by (simp add: generateChatResponse_def tryBlock_def postPrompt_def split: option.splits)

text \<open>
  The excerpt of the grounded prompt: the whole list when it has at most \<open>n\<close> elements,
  and otherwise its last \<open>n\<close> elements.
\<close>

lemma sliceLast_suffix:
  "(\<exists>pre. xs = pre @ sliceLast n xs \<and> length (sliceLast n xs) = min n (length xs))"
proof -
  have "xs = take (length xs - n) xs @ sliceLast n xs"
    by (simp add: sliceLast_def)
  moreover have "length (sliceLast n xs) = min n (length xs)"
    by (simp add: sliceLast_def)
  ultimately show ?thesis by blast
qed

text \<open>
  C1. When the classifier returns true for the message and the transactions argument
  is absent or an empty array, \<open>generateChatResponse\<close> returns \<open>null\<close> and posts no
  request to the generator, whatever the message, the host and the generator are.
\<close>

theorem refused_without_transactions:
  assumes "requiresTransactionData message"
    and "userTransactions = None \<or> userTransactions = Some []"
  shows "generateChatResponse globalPrompt post subtract now message userTransactions
           = \<lparr>returned = Null, posted = []\<rparr>"
  using assms by (auto simp: generateChatResponse_def tryBlock_def)

theorem refused_without_transactions_witness:
  "requiresTransactionData ''How much did I spend this month?''
   \<and> generateChatResponse (Some (generalPrompt ''Hi''))
        (answeringPost ''You spent 50'') fixedSubtract 0
        ''How much did I spend this month?'' (Some [])
       = \<lparr>returned = Null, posted = []\<rparr>
   \<and> generateChatResponse (Some (generalPrompt ''Hi''))
        (answeringPost ''You spent 50'') fixedSubtract 0
        ''How much did I spend this month?'' None
       = \<lparr>returned = Null, posted = []\<rparr>"
proof -
  have h: "requiresTransactionData ''How much did I spend this month?''"
    by (simp add: classifier_eval)
  have a: "generateChatResponse (Some (generalPrompt ''Hi''))
        (answeringPost ''You spent 50'') fixedSubtract 0
        ''How much did I spend this month?'' (Some [])
       = \<lparr>returned = Null, posted = []\<rparr>"
    by (rule refused_without_transactions [OF h]) simp
  have b: "generateChatResponse (Some (generalPrompt ''Hi''))
        (answeringPost ''You spent 50'') fixedSubtract 0
        ''How much did I spend this month?'' None
       = \<lparr>returned = Null, posted = []\<rparr>"
    by (rule refused_without_transactions [OF h]) simp
  from h a b show ?thesis by simp
qed

text \<open>
  C2, as the claim states it, fails: "budgeting" contains the keyword "budget", so the
  classifier returns true for "Give me a budgeting tip", and with no transactions the
  function returns \<open>null\<close> without posting, even on a host whose generator would answer.
\<close>

theorem budgeting_tip_counterexample:
  "requiresTransactionData ''Give me a budgeting tip''
   \<and> generateChatResponse (Some (generalPrompt ''Give me a budgeting tip''))
        (answeringPost ''Track your spending'') fixedSubtract 0
        ''Give me a budgeting tip'' None
       = \<lparr>returned = Null, posted = []\<rparr>"
  by (simp add: generateChatResponse_def tryBlock_def classifier_eval)

text \<open>
  C2, amended. For the message "Give me a budgeting tip" with no transactions supplied
  the classifier returns true, \<open>generateChatResponse\<close> returns \<open>null\<close> and the generator
  is not invoked.
\<close>

theorem budgeting_tip_refused:
  "requiresTransactionData ''Give me a budgeting tip''
   \<and> generateChatResponse globalPrompt post subtract now ''Give me a budgeting tip'' None
       = \<lparr>returned = Null, posted = []\<rparr>"
  by (simp add: generateChatResponse_def tryBlock_def classifier_eval)



text \<open>
  C8 fails on the code. For the message "What is my balance?" and one transaction the
  grounded prompt is built from the analysis for the period "week" and the last ten
  transactions, but it is never passed on: on a host without a global \<open>prompt\<close>
  (Node.js) the function returns \<open>null\<close> and posts nothing, although the generator
  would have answered.
\<close>

theorem grounded_prompt_not_posted:
  "groundedPrompt fixedSubtract 7200000 ''What is my balance?''
     [\<lparr>timestamp = 0, amount = - 50, name = ''Bob''\<rparr>]
   = GroundedPrompt ''What is my balance?''
       \<lparr>period = ''week'', totalSpent = 50, totalReceived = 0, netAmount = - 50,
        transactionCount = 1, topSenders = [],
        topReceivers = [\<lparr>name = ''Bob'', amount = 50, count = 1\<rparr>]\<rparr>
       [\<lparr>timestamp = 0, amount = - 50, name = ''Bob''\<rparr>]
   \<and> generateChatResponse (None :: prompt option) (answeringPost ''You spent 50'')
        fixedSubtract 7200000 ''What is my balance?''
        (Some [\<lparr>timestamp = 0, amount = - 50, name = ''Bob''\<rparr>])
     = \<lparr>returned = Null, posted = []\<rparr>"
proof -
  have a: "groundedPrompt fixedSubtract 7200000 ''What is my balance?''
     [\<lparr>timestamp = 0, amount = - 50, name = ''Bob''\<rparr>]
   = GroundedPrompt ''What is my balance?''
       \<lparr>period = ''week'', totalSpent = 50, totalReceived = 0, netAmount = - 50,
        transactionCount = 1, topSenders = [],
        topReceivers = [\<lparr>name = ''Bob'', amount = 50, count = 1\<rparr>]\<rparr>
       [\<lparr>timestamp = 0, amount = - 50, name = ''Bob''\<rparr>]"
    by (simp add: groundedPrompt_def sliceLast_def analyzeTransactions_def
          filteredTransactions_def startDate_def fixedSubtract_def Let_def rank_eval)
  have b: "generateChatResponse (None :: prompt option) (answeringPost ''You spent 50'')
        fixedSubtract 7200000 ''What is my balance?''
        (Some [\<lparr>timestamp = 0, amount = - 50, name = ''Bob''\<rparr>])
     = \<lparr>returned = Null, posted = []\<rparr>"
    by (simp add: generateChatResponse_def tryBlock_def postPrompt_def classifier_eval)
  from a b show ?thesis by simp
qed

section \<open>The ranker\<close>


lemma set_firstOccurrences [simp]: "set (firstOccurrences xs) = set xs"
  by (simp add: firstOccurrences_def)

lemma distinct_firstOccurrences [simp]: "distinct (firstOccurrences xs)"
  by (simp add: firstOccurrences_def)

lemma firstOccurrences_Nil [simp]: "firstOccurrences [] = []"
  by (simp add: firstOccurrences_def)






lemma distinct_ownKeys [simp]: "distinct (ownKeys xs)"
  by (simp add: ownKeys_def)














lemma set_enumerationOrder [simp]: "set (enumerationOrder ks) = set ks"
  by (auto simp: enumerationOrder_def)

lemma distinct_enumerationOrder [simp]: "distinct ks \<Longrightarrow> distinct (enumerationOrder ks)"
  by (auto simp: enumerationOrder_def)














section \<open>The window analyzer\<close>





text \<open>
  C5. \<open>analyzeTransactions\<close> keeps exactly the transactions whose timestamp is strictly
  after the start date, which is \<open>now\<close> minus one day, week, month or year for the
  periods "day", "week", "month" and "year"; for any other period it is \<open>now\<close> minus
  one week, and the summary is the one of the period "week" but for the \<open>period\<close> field.
  The transaction count is the number of transactions kept.
\<close>

theorem analyze_window:
  "(p = ''day'' \<longrightarrow> filteredTransactions subtract now transactions p
       = filter (\<lambda>t. subtract 1 Day now < timestamp t) transactions)
   \<and> (p = ''week'' \<longrightarrow> filteredTransactions subtract now transactions p
       = filter (\<lambda>t. subtract 1 Week now < timestamp t) transactions)
   \<and> (p = ''month'' \<longrightarrow> filteredTransactions subtract now transactions p
       = filter (\<lambda>t. subtract 1 Month now < timestamp t) transactions)
   \<and> (p = ''year'' \<longrightarrow> filteredTransactions subtract now transactions p
       = filter (\<lambda>t. subtract 1 Year now < timestamp t) transactions)
   \<and> (p \<notin> {''day'', ''week'', ''month'', ''year''} \<longrightarrow>
        filteredTransactions subtract now transactions p
          = filter (\<lambda>t. subtract 1 Week now < timestamp t) transactions
        \<and> analyzeTransactions subtract now transactions p
          = (analyzeTransactions subtract now transactions ''week'')\<lparr>period := p\<rparr>)
   \<and> transactionCount (analyzeTransactions subtract now transactions p)
       = length (filteredTransactions subtract now transactions p)"
  by (simp add: analyzeTransactions_def filteredTransactions_def startDate_def Let_def)

theorem analyze_window_witness:
  "''fortnight'' \<notin> {''day'', ''week'', ''month'', ''year''}
   \<and> filteredTransactions fixedSubtract 1751335200000
        [\<lparr>timestamp = 1750000000000, amount = 5, name = ''Old''\<rparr>,
         \<lparr>timestamp = 1750730400000, amount = 7, name = ''Edge''\<rparr>,
         \<lparr>timestamp = 1750730400001, amount = 9, name = ''New''\<rparr>,
         \<lparr>timestamp = 1751248800001, amount = 2, name = ''Today''\<rparr>] ''fortnight''
       = [\<lparr>timestamp = 1750730400001, amount = 9, name = ''New''\<rparr>,
          \<lparr>timestamp = 1751248800001, amount = 2, name = ''Today''\<rparr>]
   \<and> filteredTransactions fixedSubtract 1751335200000
        [\<lparr>timestamp = 1750000000000, amount = 5, name = ''Old''\<rparr>,
         \<lparr>timestamp = 1750730400000, amount = 7, name = ''Edge''\<rparr>,
         \<lparr>timestamp = 1750730400001, amount = 9, name = ''New''\<rparr>,
         \<lparr>timestamp = 1751248800001, amount = 2, name = ''Today''\<rparr>] ''day''
       = [\<lparr>timestamp = 1751248800001, amount = 2, name = ''Today''\<rparr>]
   \<and> filteredTransactions fixedSubtract 1751335200000
        [\<lparr>timestamp = 1750000000000, amount = 5, name = ''Old''\<rparr>,
         \<lparr>timestamp = 1750730400000, amount = 7, name = ''Edge''\<rparr>,
         \<lparr>timestamp = 1750730400001, amount = 9, name = ''New''\<rparr>,
         \<lparr>timestamp = 1751248800001, amount = 2, name = ''Today''\<rparr>] ''month''
       = [\<lparr>timestamp = 1750000000000, amount = 5, name = ''Old''\<rparr>,
         \<lparr>timestamp = 1750730400000, amount = 7, name = ''Edge''\<rparr>,
         \<lparr>timestamp = 1750730400001, amount = 9, name = ''New''\<rparr>,
         \<lparr>timestamp = 1751248800001, amount = 2, name = ''Today''\<rparr>]"
proof -
  have h: "''fortnight'' \<notin> {''day'', ''week'', ''month'', ''year''}" by simp
  have d: "''day'' = ''day''" and m: "''month'' = ''month''" by simp_all
  note w = analyze_window [of _ fixedSubtract 1751335200000
        "[\<lparr>timestamp = 1750000000000, amount = 5, name = ''Old''\<rparr>,
         \<lparr>timestamp = 1750730400000, amount = 7, name = ''Edge''\<rparr>,
         \<lparr>timestamp = 1750730400001, amount = 9, name = ''New''\<rparr>,
         \<lparr>timestamp = 1751248800001, amount = 2, name = ''Today''\<rparr>]"]
  from w [of "''fortnight''"] h
  have a: "filteredTransactions fixedSubtract 1751335200000
        [\<lparr>timestamp = 1750000000000, amount = 5, name = ''Old''\<rparr>,
         \<lparr>timestamp = 1750730400000, amount = 7, name = ''Edge''\<rparr>,
         \<lparr>timestamp = 1750730400001, amount = 9, name = ''New''\<rparr>,
         \<lparr>timestamp = 1751248800001, amount = 2, name = ''Today''\<rparr>] ''fortnight''
       = [\<lparr>timestamp = 1750730400001, amount = 9, name = ''New''\<rparr>,
          \<lparr>timestamp = 1751248800001, amount = 2, name = ''Today''\<rparr>]"
    by (simp add: fixedSubtract_def)
  from w [of "''day''"] d
  have b: "filteredTransactions fixedSubtract 1751335200000
        [\<lparr>timestamp = 1750000000000, amount = 5, name = ''Old''\<rparr>,
         \<lparr>timestamp = 1750730400000, amount = 7, name = ''Edge''\<rparr>,
         \<lparr>timestamp = 1750730400001, amount = 9, name = ''New''\<rparr>,
         \<lparr>timestamp = 1751248800001, amount = 2, name = ''Today''\<rparr>] ''day''
       = [\<lparr>timestamp = 1751248800001, amount = 2, name = ''Today''\<rparr>]"
    by (simp add: fixedSubtract_def)
  from w [of "''month''"] m
  have c: "filteredTransactions fixedSubtract 1751335200000
        [\<lparr>timestamp = 1750000000000, amount = 5, name = ''Old''\<rparr>,
         \<lparr>timestamp = 1750730400000, amount = 7, name = ''Edge''\<rparr>,
         \<lparr>timestamp = 1750730400001, amount = 9, name = ''New''\<rparr>,
         \<lparr>timestamp = 1751248800001, amount = 2, name = ''Today''\<rparr>] ''month''
       = [\<lparr>timestamp = 1750000000000, amount = 5, name = ''Old''\<rparr>,
         \<lparr>timestamp = 1750730400000, amount = 7, name = ''Edge''\<rparr>,
         \<lparr>timestamp = 1750730400001, amount = 9, name = ''New''\<rparr>,
         \<lparr>timestamp = 1751248800001, amount = 2, name = ''Today''\<rparr>]"
    by (simp add: fixedSubtract_def)
  from h a b c show ?thesis by blast
qed

text \<open>
  C9. With \<open>now\<close> two hours after \<open>T0\<close> and a clock on which one week before \<open>now\<close>
  lies before \<open>T0\<close>, the two transactions of the scenario give, for the period "week",
  \<open>totalSpent = 50\<close>, \<open>totalReceived = 200\<close>, \<open>netAmount = 150\<close>,
  \<open>transactionCount = 2\<close>, \<open>topSenders = [{Alice, 200, 1}]\<close> and
  \<open>topReceivers = [{Bob, 50, 1}]\<close>.
\<close>

theorem analyze_scenario:
  assumes "subtract 1 Week (T0 + 7200000) < T0"
  shows "analyzeTransactions subtract (T0 + 7200000)
           [\<lparr>timestamp = T0, amount = - 50, name = ''Bob''\<rparr>,
            \<lparr>timestamp = T0 + 3600000, amount = 200, name = ''Alice''\<rparr>] ''week''
         = \<lparr>period = ''week'', totalSpent = 50, totalReceived = 200, netAmount = 150,
            transactionCount = 2,
            topSenders = [\<lparr>name = ''Alice'', amount = 200, count = 1\<rparr>],
            topReceivers = [\<lparr>name = ''Bob'', amount = 50, count = 1\<rparr>]\<rparr>"
  using assms
  by (simp add: analyzeTransactions_def filteredTransactions_def startDate_def Let_def rank_eval)

theorem analyze_scenario_witness:
  "fixedSubtract 1 Week (1751328000000 + 7200000) < 1751328000000
   \<and> analyzeTransactions fixedSubtract (1751328000000 + 7200000)
        [\<lparr>timestamp = 1751328000000, amount = - 50, name = ''Bob''\<rparr>,
         \<lparr>timestamp = 1751328000000 + 3600000, amount = 200, name = ''Alice''\<rparr>] ''week''
      = \<lparr>period = ''week'', totalSpent = 50, totalReceived = 200, netAmount = 150,
         transactionCount = 2,
         topSenders = [\<lparr>name = ''Alice'', amount = 200, count = 1\<rparr>],
         topReceivers = [\<lparr>name = ''Bob'', amount = 50, count = 1\<rparr>]\<rparr>"
proof -
  have h: "fixedSubtract 1 Week (1751328000000 + 7200000) < 1751328000000"
    by (simp add: fixedSubtract_def)
  from h analyze_scenario [of fixedSubtract 1751328000000, OF h] show ?thesis by blast
qed

text \<open>
  C10. A transaction in the window whose amount is exactly zero adds one to
  \<open>transactionCount\<close> and changes nothing else of the summary: the totals and both
  rankings are those of the list without it, since the sums and the rankings are
  computed over the transactions with a strictly negative or a strictly positive
  amount.
\<close>

theorem zero_amount_counted_only:
  assumes "transaction.amount t = 0"
    and "startDate subtract now p < timestamp t"
  shows "analyzeTransactions subtract now (xs @ t # ys) p
         = (analyzeTransactions subtract now (xs @ ys) p)
             \<lparr>transactionCount :=
                transactionCount (analyzeTransactions subtract now (xs @ ys) p) + 1\<rparr>"
  using assms
  by (simp add: analyzeTransactions_def filteredTransactions_def Let_def)

theorem zero_amount_counted_only_witness:
  "transaction.amount \<lparr>timestamp = 3600000, amount = 0, name = ''Carol''\<rparr> = 0
   \<and> startDate fixedSubtract 7200000 ''week''
       < timestamp \<lparr>timestamp = 3600000, amount = 0, name = ''Carol''\<rparr>
   \<and> analyzeTransactions fixedSubtract 7200000
        ([\<lparr>timestamp = 0, amount = - 50, name = ''Bob''\<rparr>]
         @ \<lparr>timestamp = 3600000, amount = 0, name = ''Carol''\<rparr>
         # [\<lparr>timestamp = 3600000, amount = 200, name = ''Alice''\<rparr>]) ''week''
      = \<lparr>period = ''week'', totalSpent = 50, totalReceived = 200, netAmount = 150,
         transactionCount = 3,
         topSenders = [\<lparr>name = ''Alice'', amount = 200, count = 1\<rparr>],
         topReceivers = [\<lparr>name = ''Bob'', amount = 50, count = 1\<rparr>]\<rparr>"
proof -
  have h1: "transaction.amount \<lparr>timestamp = 3600000, amount = 0, name = ''Carol''\<rparr> = 0"
    by simp
  have h2: "startDate fixedSubtract 7200000 ''week''
              < timestamp \<lparr>timestamp = 3600000, amount = 0, name = ''Carol''\<rparr>"
    by (simp add: startDate_def fixedSubtract_def)
  have base: "analyzeTransactions fixedSubtract 7200000
        ([\<lparr>timestamp = 0, amount = - 50, name = ''Bob''\<rparr>]
         @ [\<lparr>timestamp = 3600000, amount = 200, name = ''Alice''\<rparr>]) ''week''
      = \<lparr>period = ''week'', totalSpent = 50, totalReceived = 200, netAmount = 150,
         transactionCount = 2,
         topSenders = [\<lparr>name = ''Alice'', amount = 200, count = 1\<rparr>],
         topReceivers = [\<lparr>name = ''Bob'', amount = 50, count = 1\<rparr>]\<rparr>"
    by (simp add: analyze_eval rank_eval)
  from zero_amount_counted_only [OF h1 h2,
      of "[\<lparr>timestamp = 0, amount = - 50, name = ''Bob''\<rparr>]"
         "[\<lparr>timestamp = 3600000, amount = 200, name = ''Alice''\<rparr>]"]
  have "analyzeTransactions fixedSubtract 7200000
        ([\<lparr>timestamp = 0, amount = - 50, name = ''Bob''\<rparr>]
         @ \<lparr>timestamp = 3600000, amount = 0, name = ''Carol''\<rparr>
         # [\<lparr>timestamp = 3600000, amount = 200, name = ''Alice''\<rparr>]) ''week''
      = \<lparr>period = ''week'', totalSpent = 50, totalReceived = 200, netAmount = 150,
         transactionCount = 3,
         topSenders = [\<lparr>name = ''Alice'', amount = 200, count = 1\<rparr>],
         topReceivers = [\<lparr>name = ''Bob'', amount = 50, count = 1\<rparr>]\<rparr>"
    unfolding base by simp
  with h1 h2 show ?thesis by blast
qed

end
